theory Spec2Isabelle
  imports Main
begin

section \<open>JavaScript values\<close>

text \<open>
  The broker (src/Broker/index.js) reads JSON request bodies and JSON responses of the
  downstream management API. A value is what \<^verbatim>\<open>JSON.parse\<close> can produce, plus
  \<^verbatim>\<open>undefined\<close>, which reading a missing property yields. Numbers are the
  integers (the search endpoint's \<^verbatim>\<open>total\<close> is a count); an object is its list of
  own properties, the first entry of a name being the one read.
\<close>

datatype jsval =
    JUndefined
  | JNull
  | JBool bool
  | JNum int
  | JStr string
  | JArr "jsval list"
  | JObj "(string \<times> jsval) list"

text \<open>What the program can throw: reading a property of \<^verbatim>\<open>undefined\<close> or
  \<^verbatim>\<open>null\<close> is a TypeError, \<^verbatim>\<open>response.json()\<close> on a body that is not JSON is a
  SyntaxError, and the OpenID client and \<^verbatim>\<open>fetch\<close> fail with errors of their own.\<close>

datatype js_exn = TypeError | SyntaxError | OtherError string

text \<open>\<^verbatim>\<open>v.k\<close> for a property name that no prototype defines (total, items, id, email,
  username, variants, name, memberId, isVip).\<close>

fun get_prop :: "jsval \<Rightarrow> string \<Rightarrow> js_exn + jsval" where
  "get_prop JUndefined k = Inl TypeError"
| "get_prop JNull k = Inl TypeError"
| "get_prop (JObj kvs) k = (case map_of kvs k of None \<Rightarrow> Inr JUndefined | Some v \<Rightarrow> Inr v)"
| "get_prop v k = Inr JUndefined"

text \<open>\<^verbatim>\<open>v[0]\<close>: the first element of an array, the first character of a string, the
  property named 0 of an object.\<close>

fun index0 :: "jsval \<Rightarrow> js_exn + jsval" where
  "index0 JUndefined = Inl TypeError"
| "index0 JNull = Inl TypeError"
| "index0 (JArr xs) = (case xs of [] \<Rightarrow> Inr JUndefined | x # _ \<Rightarrow> Inr x)"
| "index0 (JStr cs) = (case cs of [] \<Rightarrow> Inr JUndefined | c # _ \<Rightarrow> Inr (JStr [c]))"
| "index0 (JObj kvs) = (case map_of kvs ''0'' of None \<Rightarrow> Inr JUndefined | Some v \<Rightarrow> Inr v)"
| "index0 v = Inr JUndefined"

text \<open>Truthiness, as \<^verbatim>\<open>!v\<close> and \<^verbatim>\<open>v ? a : b\<close> test it.\<close>

fun truthy :: "jsval \<Rightarrow> bool" where
  "truthy JUndefined = False"
| "truthy JNull = False"
| "truthy (JBool b) = b"
| "truthy (JNum n) = (n \<noteq> 0)"
| "truthy (JStr cs) = (cs \<noteq> [])"
| "truthy (JArr xs) = True"
| "truthy (JObj kvs) = True"

text \<open>\<^verbatim>\<open>v ?? d\<close>.\<close>

fun nullish_or :: "jsval \<Rightarrow> jsval \<Rightarrow> jsval" where
  "nullish_or JUndefined d = d"
| "nullish_or JNull d = d"
| "nullish_or v d = v"

text \<open>The string a template literal \<^verbatim>\<open>`${v}`\<close> inserts.\<close>

fun dec_nat :: "nat \<Rightarrow> string" where
  "dec_nat n =
     (if n < 10 then [''0123456789'' ! n]
      else dec_nat (n div 10) @ [''0123456789'' ! (n mod 10)])"

declare dec_nat.simps [simp del]

fun js_string :: "jsval \<Rightarrow> string" and js_join :: "jsval list \<Rightarrow> string" where
  "js_string JUndefined = ''undefined''"
| "js_string JNull = ''null''"
| "js_string (JBool b) = (if b then ''true'' else ''false'')"
| "js_string (JNum n) = (if n < 0 then CHR ''-'' # dec_nat (nat (- n)) else dec_nat (nat n))"
| "js_string (JStr cs) = cs"
| "js_string (JArr xs) = js_join xs"
| "js_string (JObj kvs) = ''[object Object]''"
| "js_join [] = []"
| "js_join (JUndefined # xs) = (if xs = [] then [] else CHR '','' # js_join xs)"
| "js_join (JNull # xs) = (if xs = [] then [] else CHR '','' # js_join xs)"
| "js_join (x # xs) = js_string x @ (if xs = [] then [] else CHR '','' # js_join xs)"

definition bind_exn :: "js_exn + 'a \<Rightarrow> ('a \<Rightarrow> js_exn + 'b) \<Rightarrow> js_exn + 'b" where
  "bind_exn r f = (case r of Inl e \<Rightarrow> Inl e | Inr v \<Rightarrow> f v)"

section \<open>Tokens, requests, responses\<close>

text \<open>The token set the OpenID client returns from a grant (the client is a library, not
  code of the broker): the bearer string and the time it expires at.
  \<^verbatim>\<open>tokenSet.expired()\<close> reads the clock and holds when no time is left, that is,
  once the clock has reached \<open>expires_at\<close>.\<close>

record token_set =
  access_token :: string
  expires_at :: int

definition expired :: "int \<Rightarrow> token_set \<Rightarrow> bool" where
  "expired t ts = (expires_at ts \<le> t)"

datatype http_method = GET | POST | PUT | DELETE

text \<open>The object \<^verbatim>\<open>umbracoMemberModel\<close> returns, which \<^verbatim>\<open>JSON.stringify\<close> turns into
  the body of a write call. \<^verbatim>\<open>password\<close> is absent until \<^verbatim>\<open>createMember\<close> sets it.\<close>

record member_value =
  v_culture :: jsval
  v_segment :: jsval
  v_alias :: string
  v_value :: string

record member_variant =
  vr_culture :: jsval
  vr_segment :: jsval
  vr_name :: jsval

record umbraco_member =
  u_email :: jsval
  u_username :: jsval
  u_memberType_id :: string
  u_isApproved :: bool
  u_groups :: "string list"
  u_values :: "member_value list"
  u_variants :: "member_variant list"
  u_password :: "string option"

record request =
  rq_method :: http_method
  rq_url :: string
  rq_headers :: "(string \<times> string) list"
  rq_body :: "umbraco_member option"

text \<open>A response of \<^verbatim>\<open>fetch\<close>: \<open>rs_json\<close> is the body parsed as JSON, \<open>None\<close> when
  the body is empty or not JSON.\<close>

record response =
  rs_status :: nat
  rs_statusText :: string
  rs_json :: "jsval option"

definition ok :: "response \<Rightarrow> bool" where
  "ok r = (200 \<le> rs_status r \<and> rs_status r \<le> 299)"

text \<open>\<^verbatim>\<open>response.bodyUsed\<close> where \<^verbatim>\<open>getMember\<close> reads it: nothing has read the body
  of the response at that point, so the flag is still false.\<close>

definition bodyUsed :: "response \<Rightarrow> bool" where
  "bodyUsed r = False"

definition json :: "response \<Rightarrow> js_exn + jsval" where
  "json r = (case rs_json r of None \<Rightarrow> Inl SyntaxError | Some v \<Rightarrow> Inr v)"

text \<open>The object the operations reject with, \<^verbatim>\<open>{code, description}\<close>.\<close>

record error_obj =
  code :: nat
  description :: string

text \<open>How a promise built by \<^verbatim>\<open>new Promise(async (resolve, reject) => ...)\<close> ends:
  resolved, rejected with an error object, or left pending because the executor threw:
  an exception inside the async executor reaches neither \<^verbatim>\<open>resolve\<close> nor
  \<^verbatim>\<open>reject\<close> and surfaces as an unhandled rejection.\<close>

datatype 'a outcome = Resolved 'a | Rejected error_obj | Uncaught js_exn

text \<open>The member \<^verbatim>\<open>getMember\<close> resolves with.\<close>

record member =
  m_id :: jsval
  m_email :: jsval
  m_memberId :: jsval
  m_name :: jsval

section \<open>The environment and the process state\<close>

text \<open>Everything outside the process: the configuration read from \<^verbatim>\<open>process.env\<close>,
  the token endpoint behind \<^verbatim>\<open>client.grant\<close>, the management API behind
  \<^verbatim>\<open>fetch\<close>, the clock and the UUID generator. \<open>'w\<close> is the state of that world.\<close>

record 'w env =
  UMBRACO_HOST :: string
  UMBRACO_MEMBER_TYPE_ID :: string
  UMBRACO_MEMBER_GROUP_REGULAR_ID :: string
  UMBRACO_MEMBER_GROUP_VIP_ID :: string
  grant :: "'w \<Rightarrow> (js_exn + token_set) \<times> 'w"
  fetch :: "request \<Rightarrow> 'w \<Rightarrow> (js_exn + response) \<times> 'w"
  now :: "'w \<Rightarrow> int"
  toUTCString :: "'w \<Rightarrow> string"
  uuidV4 :: "'w \<Rightarrow> string \<times> 'w"

text \<open>An outbound call, recorded in the order made.\<close>

datatype call = GrantCall | FetchCall request

text \<open>The process: the module variable \<^verbatim>\<open>tokenSet\<close> (\<open>None\<close> is \<^verbatim>\<open>null\<close>), the
  world, and the outbound calls made so far.\<close>

record 'w state =
  tokenSet :: "token_set option"
  world :: 'w
  calls :: "call list"

definition do_grant :: "'w env \<Rightarrow> 'w state \<Rightarrow> (js_exn + token_set) \<times> 'w state" where
  "do_grant env s =
     (case grant env (world s) of
        (r, w) \<Rightarrow> (r, s\<lparr>world := w, calls := calls s @ [GrantCall]\<rparr>))"

definition do_fetch :: "'w env \<Rightarrow> request \<Rightarrow> 'w state \<Rightarrow> (js_exn + response) \<times> 'w state" where
  "do_fetch env rq s =
     (case fetch env rq (world s) of
        (r, w) \<Rightarrow> (r, s\<lparr>world := w, calls := calls s @ [FetchCall rq]\<rparr>))"

section \<open>Token provider\<close>

text \<open>\<^verbatim>\<open>getAccessToken\<close> (index.js, lines 21-30). A failed grant throws out of the
  \<^verbatim>\<open>await\<close> before the assignment to \<^verbatim>\<open>tokenSet\<close>.\<close>

definition getAccessToken :: "'w env \<Rightarrow> 'w state \<Rightarrow> (js_exn + string) \<times> 'w state" where
  "getAccessToken env s =
     (if (case tokenSet s of None \<Rightarrow> True | Some ts \<Rightarrow> expired (now env (world s)) ts)
      then
        (case do_grant env s of
           (Inl e, s1) \<Rightarrow> (Inl e, s1)
         | (Inr ts, s1) \<Rightarrow> (Inr (access_token ts), s1\<lparr>tokenSet := Some ts\<rparr>))
      else
        (case tokenSet s of
           Some ts \<Rightarrow> (Inr (access_token ts), s)
         | None \<Rightarrow> (Inl TypeError, s)))"

section \<open>Request translator\<close>

text \<open>\<^verbatim>\<open>umbracoMemberModel\<close> (lines 222-250); the date is the clock's, read from the
  world.\<close>

definition umbracoMemberModel ::
  "'w env \<Rightarrow> 'w \<Rightarrow> jsval \<Rightarrow> jsval \<Rightarrow> jsval \<Rightarrow> jsval \<Rightarrow> umbraco_member" where
  "umbracoMemberModel env w memberId name email isVip =
     (let groupIds =
        (if truthy isVip
         then [UMBRACO_MEMBER_GROUP_REGULAR_ID env, UMBRACO_MEMBER_GROUP_VIP_ID env]
         else [UMBRACO_MEMBER_GROUP_REGULAR_ID env])
      in \<lparr>u_email = email,
          u_username = memberId,
          u_memberType_id = UMBRACO_MEMBER_TYPE_ID env,
          u_isApproved = True,
          u_groups = groupIds,
          u_values = [\<lparr>v_culture = JNull, v_segment = JNull, v_alias = ''lastSyncMessage'',
                       v_value = ''Last update: '' @ toUTCString env w\<rparr>],
          u_variants = [\<lparr>vr_culture = JNull, vr_segment = JNull, vr_name = name\<rparr>],
          u_password = None\<rparr>)"

section \<open>Member directory client\<close>

text \<open>\<^verbatim>\<open>getMember\<close> (lines 185-220). The request of lines 188-197:\<close>

definition search_request :: "'w env \<Rightarrow> string \<Rightarrow> jsval \<Rightarrow> request" where
  "search_request env accessToken memberId =
     \<lparr>rq_method = GET,
      rq_url = UMBRACO_HOST env @ ''umbraco/management/api/v1/filter/member?filter=''
               @ js_string memberId @ ''&take=1'',
      rq_headers = [(''Authorization'', ''Bearer '' @ accessToken),
                    (''Accept'', ''application/json'')],
      rq_body = None\<rparr>"

text \<open>Lines 206-212: \<^verbatim>\<open>result.items[0]\<close>, then the properties of the object literal in
  the order written.\<close>

definition read_member :: "jsval \<Rightarrow> js_exn + member" where
  "read_member result =
     bind_exn (get_prop result ''items'') (\<lambda>items.
     bind_exn (index0 items) (\<lambda>item.
     bind_exn (get_prop item ''id'') (\<lambda>item_id.
     bind_exn (get_prop item ''email'') (\<lambda>item_email.
     bind_exn (get_prop item ''username'') (\<lambda>item_username.
     bind_exn (get_prop item ''variants'') (\<lambda>variants.
     bind_exn (index0 variants) (\<lambda>variant.
     bind_exn (get_prop variant ''name'') (\<lambda>variant_name.
       Inr \<lparr>m_id = item_id, m_email = item_email, m_memberId = item_username,
            m_name = variant_name\<rparr>))))))))"

text \<open>Lines 199-219: what \<^verbatim>\<open>getMember\<close> makes of the response.\<close>

definition getMember_response :: "response \<Rightarrow> member option outcome" where
  "getMember_response response =
     (if ok response then
        (case json response of
           Inl e \<Rightarrow> Uncaught e
         | Inr result \<Rightarrow>
             (case get_prop result ''total'' of
                Inl e \<Rightarrow> Uncaught e
              | Inr result_total \<Rightarrow>
                  if result_total = JNum 0 then Resolved None
                  else (case read_member result of
                          Inl e \<Rightarrow> Uncaught e
                        | Inr m \<Rightarrow> Resolved (Some m))))
      else
        (case (if bodyUsed response then json response
               else Inr (JStr (rs_statusText response))) of
           Inl e \<Rightarrow> Uncaught e
         | Inr errorDetails \<Rightarrow>
             Rejected \<lparr>code = rs_status response, description = rs_statusText response\<rparr>))"

definition getMember :: "'w env \<Rightarrow> jsval \<Rightarrow> 'w state \<Rightarrow> member option outcome \<times> 'w state" where
  "getMember env memberId s =
     (case getAccessToken env s of
        (Inl e, s1) \<Rightarrow> (Uncaught e, s1)
      | (Inr accessToken, s1) \<Rightarrow>
          (case do_fetch env (search_request env accessToken memberId) s1 of
             (Inl e, s2) \<Rightarrow> (Uncaught e, s2)
           | (Inr response, s2) \<Rightarrow> (getMember_response response, s2)))"

text \<open>The tail createMember, updateMember and deleteMember share (lines 91-111,
  127-147, 161-179): fetch the token, send the request, and read the response. On a
  status outside 200-299 the body is parsed before the rejection.\<close>

definition write_response :: "response \<Rightarrow> bool outcome" where
  "write_response response =
     (if ok response then Resolved True
      else (case json response of
              Inl e \<Rightarrow> Uncaught e
            | Inr errorDetails \<Rightarrow>
                Rejected \<lparr>code = rs_status response,
                          description = rs_statusText response\<rparr>))"

definition send_write :: "'w env \<Rightarrow> (string \<Rightarrow> request) \<Rightarrow> 'w state \<Rightarrow> bool outcome \<times> 'w state" where
  "send_write env mk s =
     (case getAccessToken env s of
        (Inl e, s1) \<Rightarrow> (Uncaught e, s1)
      | (Inr accessToken, s1) \<Rightarrow>
          (case do_fetch env (mk accessToken) s1 of
             (Inl e, s2) \<Rightarrow> (Uncaught e, s2)
           | (Inr response, s2) \<Rightarrow> (write_response response, s2)))"

definition create_request :: "'w env \<Rightarrow> umbraco_member \<Rightarrow> string \<Rightarrow> request" where
  "create_request env umbracoMember accessToken =
     \<lparr>rq_method = POST,
      rq_url = UMBRACO_HOST env @ ''umbraco/management/api/v1/member'',
      rq_headers = [(''Authorization'', ''Bearer '' @ accessToken),
                    (''Content-Type'', ''application/json'')],
      rq_body = Some umbracoMember\<rparr>"

definition member_url :: "'w env \<Rightarrow> jsval \<Rightarrow> string" where
  "member_url env member_id =
     UMBRACO_HOST env @ ''umbraco/management/api/v1/member/'' @ js_string member_id"

definition update_request :: "'w env \<Rightarrow> jsval \<Rightarrow> umbraco_member \<Rightarrow> string \<Rightarrow> request" where
  "update_request env member_id umbracoMember accessToken =
     \<lparr>rq_method = PUT,
      rq_url = member_url env member_id,
      rq_headers = [(''Authorization'', ''Bearer '' @ accessToken),
                    (''Content-Type'', ''application/json'')],
      rq_body = Some umbracoMember\<rparr>"

definition delete_request :: "'w env \<Rightarrow> jsval \<Rightarrow> string \<Rightarrow> request" where
  "delete_request env member_id accessToken =
     \<lparr>rq_method = DELETE,
      rq_url = member_url env member_id,
      rq_headers = [(''Authorization'', ''Bearer '' @ accessToken)],
      rq_body = None\<rparr>"

text \<open>\<^verbatim>\<open>createMember\<close> (lines 79-115).\<close>

definition createMember ::
  "'w env \<Rightarrow> jsval \<Rightarrow> jsval \<Rightarrow> jsval \<Rightarrow> jsval \<Rightarrow> 'w state \<Rightarrow> bool outcome \<times> 'w state" where
  "createMember env memberId name email isVip s =
     (case getMember env memberId s of
        (Uncaught e, s1) \<Rightarrow> (Uncaught e, s1)
      | (Rejected error, s1) \<Rightarrow> (Rejected error, s1)
      | (Resolved (Some m), s1) \<Rightarrow>
          (Rejected \<lparr>code = 409, description = ''Member already exists''\<rparr>, s1)
      | (Resolved None, s1) \<Rightarrow>
          (let umbracoMember = umbracoMemberModel env (world s1) memberId name email isVip
           in case uuidV4 env (world s1) of
                (pw, w) \<Rightarrow>
                  send_write env
                    (create_request env (umbracoMember\<lparr>u_password := Some pw\<rparr>))
                    (s1\<lparr>world := w\<rparr>)))"

text \<open>\<^verbatim>\<open>updateMember\<close> (lines 117-151).\<close>

definition updateMember ::
  "'w env \<Rightarrow> jsval \<Rightarrow> jsval \<Rightarrow> jsval \<Rightarrow> jsval \<Rightarrow> 'w state \<Rightarrow> bool outcome \<times> 'w state" where
  "updateMember env memberId name email isVip s =
     (case getMember env memberId s of
        (Uncaught e, s1) \<Rightarrow> (Uncaught e, s1)
      | (Rejected error, s1) \<Rightarrow> (Rejected error, s1)
      | (Resolved None, s1) \<Rightarrow>
          (Rejected \<lparr>code = 404, description = ''No such member''\<rparr>, s1)
      | (Resolved (Some m), s1) \<Rightarrow>
          (let umbracoMember = umbracoMemberModel env (world s1) memberId name email isVip
           in send_write env (update_request env (m_id m) umbracoMember) s1))"

text \<open>\<^verbatim>\<open>deleteMember\<close> (lines 153-183).\<close>

definition deleteMember :: "'w env \<Rightarrow> jsval \<Rightarrow> 'w state \<Rightarrow> bool outcome \<times> 'w state" where
  "deleteMember env memberId s =
     (case getMember env memberId s of
        (Uncaught e, s1) \<Rightarrow> (Uncaught e, s1)
      | (Rejected error, s1) \<Rightarrow> (Rejected error, s1)
      | (Resolved None, s1) \<Rightarrow>
          (Rejected \<lparr>code = 404, description = ''No such member''\<rparr>, s1)
      | (Resolved (Some m), s1) \<Rightarrow> send_write env (delete_request env (m_id m)) s1)"

section \<open>HTTP facade\<close>

text \<open>What a route handler does with the Express response: it sends a status and a
  text, or it never answers because the operation it awaits stays pending or a property
  read threw.\<close>

datatype http_reply = Reply nat string | NoReply js_exn

definition relay :: "bool outcome \<Rightarrow> http_reply" where
  "relay r =
     (case r of
        Resolved b \<Rightarrow> Reply 200 []
      | Rejected error \<Rightarrow> Reply (code error) (description error)
      | Uncaught e \<Rightarrow> NoReply e)"

definition malformed :: http_reply where
  "malformed = Reply 400 ''Malformed request body (missing required member properties)''"

text \<open>\<^verbatim>\<open>app.post('/member')\<close> (lines 40-52); \<open>data\<close> is \<^verbatim>\<open>req.body\<close>.\<close>

definition post_member :: "'w env \<Rightarrow> jsval \<Rightarrow> 'w state \<Rightarrow> http_reply \<times> 'w state" where
  "post_member env data s =
     (case get_prop data ''email'' of
        Inl e \<Rightarrow> (NoReply e, s)
      | Inr email \<Rightarrow>
          if \<not> truthy email then (malformed, s)
          else (case get_prop data ''name'' of
             Inl e \<Rightarrow> (NoReply e, s)
           | Inr name \<Rightarrow>
               if \<not> truthy name then (malformed, s)
               else (case get_prop data ''memberId'' of
                  Inl e \<Rightarrow> (NoReply e, s)
                | Inr memberId \<Rightarrow>
                    if \<not> truthy memberId then (malformed, s)
                    else (case get_prop data ''isVip'' of
                       Inl e \<Rightarrow> (NoReply e, s)
                     | Inr isVip \<Rightarrow>
                         (case createMember env memberId name email
                                 (nullish_or isVip (JBool False)) s of
                            (r, s1) \<Rightarrow> (relay r, s1))))))"

text \<open>\<^verbatim>\<open>app.put('/member/:memberId')\<close> (lines 54-66); the member id is the route
  parameter, a string.\<close>

definition put_member :: "'w env \<Rightarrow> string \<Rightarrow> jsval \<Rightarrow> 'w state \<Rightarrow> http_reply \<times> 'w state" where
  "put_member env memberId data s =
     (case get_prop data ''email'' of
        Inl e \<Rightarrow> (NoReply e, s)
      | Inr email \<Rightarrow>
          if \<not> truthy email then (malformed, s)
          else (case get_prop data ''name'' of
             Inl e \<Rightarrow> (NoReply e, s)
           | Inr name \<Rightarrow>
               if \<not> truthy name then (malformed, s)
               else (case get_prop data ''isVip'' of
                  Inl e \<Rightarrow> (NoReply e, s)
                | Inr isVip \<Rightarrow>
                    (case updateMember env (JStr memberId) name email
                            (nullish_or isVip (JBool False)) s of
                       (r, s1) \<Rightarrow> (relay r, s1)))))"

text \<open>\<^verbatim>\<open>app.delete('/member/:memberId')\<close> (lines 68-74).\<close>

definition delete_member :: "'w env \<Rightarrow> string \<Rightarrow> 'w state \<Rightarrow> http_reply \<times> 'w state" where
  "delete_member env memberId s =
     (case deleteMember env (JStr memberId) s of (r, s1) \<Rightarrow> (relay r, s1))"

section \<open>Observing the outbound calls\<close>

text \<open>The calls an operation adds to the record, the grants among some calls, and the
  write calls (POST, PUT, DELETE) among them.\<close>

definition new_calls :: "'w state \<Rightarrow> 'w state \<Rightarrow> call list" where
  "new_calls s s1 = drop (length (calls s)) (calls s1)"

definition grant_calls :: "call list \<Rightarrow> nat" where
  "grant_calls cs = length (filter (\<lambda>c. c = GrantCall) cs)"

fun is_write :: "call \<Rightarrow> bool" where
  "is_write GrantCall = False"
| "is_write (FetchCall rq) = (rq_method rq \<noteq> GET)"

definition write_calls :: "call list \<Rightarrow> call list" where
  "write_calls cs = filter is_write cs"

section \<open>A scripted downstream\<close>

text \<open>A world that answers grants and requests from a script, in order, and whose clock
  is set by hand: the test double the operations are run against on concrete inputs.\<close>

record script =
  clock :: int
  grants :: "(js_exn + token_set) list"
  replies :: "(js_exn + response) list"

definition script_env :: "script env" where
  "script_env =
     \<lparr>UMBRACO_HOST = ''https://cms.example/'',
      UMBRACO_MEMBER_TYPE_ID = ''type-member'',
      UMBRACO_MEMBER_GROUP_REGULAR_ID = ''group-regular'',
      UMBRACO_MEMBER_GROUP_VIP_ID = ''group-vip'',
      grant = (\<lambda>w. case grants w of
                       [] \<Rightarrow> (Inl (OtherError ''no grant scripted''), w)
                     | g # gs \<Rightarrow> (g, w\<lparr>grants := gs\<rparr>)),
      fetch = (\<lambda>rq w. case replies w of
                          [] \<Rightarrow> (Inl (OtherError ''no reply scripted''), w)
                        | r # rs \<Rightarrow> (r, w\<lparr>replies := rs\<rparr>)),
      now = clock,
      toUTCString = (\<lambda>w. ''Thu, 01 Jan 1970 00:00:00 GMT''),
      uuidV4 = (\<lambda>w. (''3f0c2a9e-5b1d-4c7a-9e2f-6d8b1a4c7e90'', w))\<rparr>"

text \<open>The process as it starts, holding no token.\<close>

definition start :: "script \<Rightarrow> script state" where
  "start w = \<lparr>tokenSet = None, world = w, calls = []\<rparr>"

text \<open>Two token sets the token endpoint issues, one after the other.\<close>

definition token_a :: token_set where
  "token_a = \<lparr>access_token = ''token-a'', expires_at = 3600\<rparr>"

definition token_b :: token_set where
  "token_b = \<lparr>access_token = ''token-b'', expires_at = 7200\<rparr>"

text \<open>Answers of the management API: a search that finds the member alice, a search that
  finds nobody, a search whose result has no item or whose item has no variant, and the
  answers to write calls.\<close>

definition found_alice :: response where
  "found_alice =
     \<lparr>rs_status = 200, rs_statusText = ''OK'',
      rs_json = Some (JObj [(''total'', JNum 1),
        (''items'', JArr [JObj [(''id'', JStr ''7d1e''), (''email'', JStr ''a@x.com''),
           (''username'', JStr ''alice''),
           (''variants'', JArr [JObj [(''name'', JStr ''Alice'')]])]])])\<rparr>"

definition alice :: member where
  "alice = \<lparr>m_id = JStr ''7d1e'', m_email = JStr ''a@x.com'', m_memberId = JStr ''alice'',
             m_name = JStr ''Alice''\<rparr>"

definition found_none :: response where
  "found_none =
     \<lparr>rs_status = 200, rs_statusText = ''OK'',
      rs_json = Some (JObj [(''total'', JNum 0), (''items'', JArr [])])\<rparr>"

definition no_items :: response where
  "no_items =
     \<lparr>rs_status = 200, rs_statusText = ''OK'',
      rs_json = Some (JObj [(''total'', JNum 1), (''items'', JArr [])])\<rparr>"

definition no_variants :: response where
  "no_variants =
     \<lparr>rs_status = 200, rs_statusText = ''OK'',
      rs_json = Some (JObj [(''total'', JNum 1),
        (''items'', JArr [JObj [(''id'', JStr ''7d1e''), (''email'', JStr ''a@x.com''),
           (''username'', JStr ''alice''), (''variants'', JArr [])]])])\<rparr>"

definition created :: response where
  "created = \<lparr>rs_status = 201, rs_statusText = ''Created'', rs_json = None\<rparr>"

definition updated :: response where
  "updated = \<lparr>rs_status = 200, rs_statusText = ''OK'', rs_json = None\<rparr>"

definition server_error :: response where
  "server_error =
     \<lparr>rs_status = 500, rs_statusText = ''Internal Server Error'', rs_json = None\<rparr>"

text \<open>Scripts: what the token endpoint and the management API answer, in order.\<close>

definition two_tokens :: script where
  "two_tokens = \<lparr>clock = 0, grants = [Inr token_a, Inr token_b], replies = []\<rparr>"

definition one_token_left :: "int \<Rightarrow> script" where
  "one_token_left t = \<lparr>clock = t, grants = [Inr token_b], replies = []\<rparr>"

definition answers :: "response \<Rightarrow> script" where
  "answers r = \<lparr>clock = 0, grants = [Inr token_a], replies = [Inr r]\<rparr>"

definition nobody :: script where
  "nobody = \<lparr>clock = 0, grants = [Inr token_a], replies = [Inr found_none]\<rparr>"

definition search_fails :: script where
  "search_fails = \<lparr>clock = 0, grants = [Inr token_a], replies = [Inr server_error]\<rparr>"

definition create_twice :: script where
  "create_twice =
     \<lparr>clock = 0, grants = [Inr token_a],
      replies = [Inr found_none, Inr created, Inr found_alice]\<rparr>"

definition edit_alice :: script where
  "edit_alice = \<lparr>clock = 0, grants = [Inr token_a], replies = [Inr found_alice, Inr updated]\<rparr>"

definition write_fails :: script where
  "write_fails =
     \<lparr>clock = 0, grants = [Inr token_a], replies = [Inr found_none, Inr server_error]\<rparr>"

definition edit_fails :: script where
  "edit_fails =
     \<lparr>clock = 0, grants = [Inr token_a], replies = [Inr found_alice, Inr server_error]\<rparr>"

text \<open>States of the process in the runs below: holding the first token, and after a first
  create.\<close>

definition holding_a :: "script \<Rightarrow> script state" where
  "holding_a w = \<lparr>tokenSet = Some token_a, world = w, calls = [GrantCall]\<rparr>"

definition granted_a :: "script \<Rightarrow> script state" where
  "granted_a w =
     \<lparr>tokenSet = Some token_a, world = w\<lparr>grants := []\<rparr>, calls = [GrantCall]\<rparr>"

definition after_create :: "script state" where
  "after_create =
     snd (createMember script_env (JStr ''alice'') (JStr ''Alice'') (JStr ''a@x.com'')
            (JBool True) (start create_twice))"

section \<open>Basic facts about the record of calls\<close>

lemma do_grant_calls: "calls (snd (do_grant env s)) = calls s @ [GrantCall]"
  by (simp add: do_grant_def split: prod.splits)

lemma do_grant_tokenSet: "tokenSet (snd (do_grant env s)) = tokenSet s"
  by (simp add: do_grant_def split: prod.splits)

lemma do_grant_fst: "fst (do_grant env s) = fst (grant env (world s))"
  by (simp add: do_grant_def split: prod.splits)

lemma do_fetch_calls: "calls (snd (do_fetch env rq s)) = calls s @ [FetchCall rq]"
  by (simp add: do_fetch_def split: prod.splits)

lemma write_calls_append: "write_calls (xs @ ys) = write_calls xs @ write_calls ys"
  by (simp add: write_calls_def)

lemma new_calls_append: "calls s1 = calls s @ cs \<Longrightarrow> new_calls s s1 = cs"
  by (simp add: new_calls_def)

text \<open>The definitions a run against the scripted downstream unfolds.\<close>

lemmas run_defs =
  getAccessToken_def do_grant_def do_fetch_def getMember_def getMember_response_def
  read_member_def bind_exn_def json_def ok_def bodyUsed_def send_write_def write_response_def
  createMember_def updateMember_def deleteMember_def umbracoMemberModel_def
  search_request_def create_request_def update_request_def delete_request_def member_url_def
  script_env_def start_def expired_def token_a_def token_b_def
  found_alice_def found_none_def created_def server_error_def

section \<open>Token provider: when a grant is made\<close>

lemma getAccessToken_due:
  assumes "tokenSet s = None \<or> (\<exists>ts. tokenSet s = Some ts \<and> expired (now env (world s)) ts)"
  shows "getAccessToken env s =
           (case do_grant env s of
              (Inl e, s1) \<Rightarrow> (Inl e, s1)
            | (Inr ts, s1) \<Rightarrow> (Inr (access_token ts), s1\<lparr>tokenSet := Some ts\<rparr>))"
  using assms by (auto simp: getAccessToken_def)

lemma getAccessToken_cached:
  assumes "tokenSet s = Some ts" and "\<not> expired (now env (world s)) ts"
  shows "getAccessToken env s = (Inr (access_token ts), s)"
  using assms by (simp add: getAccessToken_def)

lemma getAccessToken_due_calls:
  assumes "tokenSet s = None \<or> (\<exists>ts. tokenSet s = Some ts \<and> expired (now env (world s)) ts)"
  shows "calls (snd (getAccessToken env s)) = calls s @ [GrantCall]"
  using do_grant_calls [of env s]
  by (auto simp: getAccessToken_due [OF assms] split: prod.splits sum.splits)

lemma getAccessToken_due_success:
  assumes "tokenSet s = None \<or> (\<exists>ts. tokenSet s = Some ts \<and> expired (now env (world s)) ts)"
    and "fst (grant env (world s)) = Inr ts"
  shows "fst (getAccessToken env s) = Inr (access_token ts)
       \<and> tokenSet (snd (getAccessToken env s)) = Some ts"
  using do_grant_fst [of env s] assms(2)
  by (auto simp: getAccessToken_due [OF assms(1)] split: prod.splits sum.splits)

lemma getAccessToken_success_holds:
  assumes "getAccessToken env s = (Inr tok, s1)"
  shows "\<exists>ts. tokenSet s1 = Some ts \<and> access_token ts = tok"
  using assms
  by (auto simp: getAccessToken_def split: if_splits option.splits prod.splits sum.splits)

text \<open>
  Claim C1. \<^verbatim>\<open>getAccessToken\<close> makes a grant exactly when no token is held or the
  held one is expired: then it makes one grant and nothing else, and a successful grant's
  token set is stored and its access token returned; otherwise it returns the held token
  and leaves the state as it was (no call at all). So, from a process holding no token,
  a first call that succeeds has made one grant; a second call at any time the token is
  not yet expired returns the same token with the state unchanged; and a call at a time
  the token is expired makes exactly one more grant.
\<close>

theorem getAccessToken_grant_iff:
  "(tokenSet s = None \<or> (\<exists>ts. tokenSet s = Some ts \<and> expired (now env (world s)) ts)
      \<longrightarrow> new_calls s (snd (getAccessToken env s)) = [GrantCall]
        \<and> (\<forall>ts. fst (grant env (world s)) = Inr ts \<longrightarrow>
              fst (getAccessToken env s) = Inr (access_token ts)
              \<and> tokenSet (snd (getAccessToken env s)) = Some ts))
   \<and> (\<forall>ts. tokenSet s = Some ts \<and> \<not> expired (now env (world s)) ts
        \<longrightarrow> getAccessToken env s = (Inr (access_token ts), s))
   \<and> (\<forall>tok s1 ts w2 w3.
        tokenSet s = None \<and> getAccessToken env s = (Inr tok, s1) \<and> tokenSet s1 = Some ts
        \<and> \<not> expired (now env w2) ts \<and> expired (now env w3) ts
        \<longrightarrow> grant_calls (calls s1) = grant_calls (calls s) + 1
          \<and> getAccessToken env (s1\<lparr>world := w2\<rparr>) = (Inr tok, s1\<lparr>world := w2\<rparr>)
          \<and> grant_calls (calls (snd (getAccessToken env (s1\<lparr>world := w3\<rparr>))))
              = grant_calls (calls s1) + 1)"
proof (intro conjI allI impI)
  assume due: "tokenSet s = None \<or> (\<exists>ts. tokenSet s = Some ts \<and> expired (now env (world s)) ts)"
  show "new_calls s (snd (getAccessToken env s)) = [GrantCall]"
    by (simp add: new_calls_def getAccessToken_due_calls [OF due])
  fix ts assume "fst (grant env (world s)) = Inr ts"
  from getAccessToken_due_success [OF due this]
  show "fst (getAccessToken env s) = Inr (access_token ts)"
    and "tokenSet (snd (getAccessToken env s)) = Some ts" by simp_all
next
  fix ts assume "tokenSet s = Some ts \<and> \<not> expired (now env (world s)) ts"
  then show "getAccessToken env s = (Inr (access_token ts), s)"
    by (simp add: getAccessToken_cached)
next
  fix tok s1 ts w2 w3
  assume a: "tokenSet s = None \<and> getAccessToken env s = (Inr tok, s1) \<and> tokenSet s1 = Some ts
        \<and> \<not> expired (now env w2) ts \<and> expired (now env w3) ts"
  from a have due: "tokenSet s = None \<or> (\<exists>ts. tokenSet s = Some ts \<and> expired (now env (world s)) ts)"
    by simp
  from a getAccessToken_due_calls [OF due] have c1: "calls s1 = calls s @ [GrantCall]" by simp
  then show "grant_calls (calls s1) = grant_calls (calls s) + 1"
    by (simp add: grant_calls_def)
  from a getAccessToken_success_holds [of env s tok s1] have tok: "access_token ts = tok"
    by auto
  from a have "tokenSet (s1\<lparr>world := w2\<rparr>) = Some ts"
    and "\<not> expired (now env (world (s1\<lparr>world := w2\<rparr>))) ts" by simp_all
  from getAccessToken_cached [OF this] tok
  show "getAccessToken env (s1\<lparr>world := w2\<rparr>) = (Inr tok, s1\<lparr>world := w2\<rparr>)" by simp
  from a have "tokenSet (s1\<lparr>world := w3\<rparr>) = None
      \<or> (\<exists>t. tokenSet (s1\<lparr>world := w3\<rparr>) = Some t
             \<and> expired (now env (world (s1\<lparr>world := w3\<rparr>))) t)" by simp
  from getAccessToken_due_calls [OF this]
  show "grant_calls (calls (snd (getAccessToken env (s1\<lparr>world := w3\<rparr>))))
              = grant_calls (calls s1) + 1"
    by (simp add: grant_calls_def)
qed

lemma first_call:
  "getAccessToken script_env (start two_tokens) = (Inr ''token-a'', holding_a (one_token_left 0))"
  by (simp add: getAccessToken_def do_grant_def script_env_def start_def two_tokens_def
      token_a_def holding_a_def one_token_left_def)

lemma third_call:
  "getAccessToken script_env (holding_a (one_token_left 3600)) =
     (Inr ''token-b'',
      \<lparr>tokenSet = Some token_b, world = \<lparr>clock = 3600, grants = [], replies = []\<rparr>,
       calls = [GrantCall, GrantCall]\<rparr>)"
  by (simp add: getAccessToken_def do_grant_def script_env_def expired_def
      token_a_def token_b_def holding_a_def one_token_left_def)

text \<open>Three calls against the scripted token endpoint: at time 0 with no token, at
  3599 (the token expires at 3600), and at 3600.\<close>

theorem getAccessToken_grant_iff_witness:
  "getAccessToken script_env (start two_tokens) = (Inr ''token-a'', holding_a (one_token_left 0))
   \<and> grant_calls (calls (holding_a (one_token_left 0))) = 1
   \<and> getAccessToken script_env (holding_a (one_token_left 3599))
       = (Inr ''token-a'', holding_a (one_token_left 3599))
   \<and> fst (getAccessToken script_env (holding_a (one_token_left 3600))) = Inr ''token-b''
   \<and> grant_calls (calls (snd (getAccessToken script_env (holding_a (one_token_left 3600))))) = 2"
proof -
  have w: "holding_a (one_token_left 0)\<lparr>world := one_token_left t\<rparr> = holding_a (one_token_left t)"
    for t by (simp add: holding_a_def)
  have h: "tokenSet (start two_tokens) = None
      \<and> getAccessToken script_env (start two_tokens)
          = (Inr ''token-a'', holding_a (one_token_left 0))
      \<and> tokenSet (holding_a (one_token_left 0)) = Some token_a
      \<and> \<not> expired (now script_env (one_token_left 3599)) token_a
      \<and> expired (now script_env (one_token_left 3600)) token_a"
    by (simp add: first_call)
      (simp add: start_def expired_def script_env_def token_a_def holding_a_def
        one_token_left_def)
  have c0: "grant_calls (calls (start two_tokens)) = 0"
    by (simp add: start_def grant_calls_def)
  from getAccessToken_grant_iff [of "start two_tokens" script_env] h
  have "grant_calls (calls (holding_a (one_token_left 0)))
          = grant_calls (calls (start two_tokens)) + 1
     \<and> getAccessToken script_env (holding_a (one_token_left 0)\<lparr>world := one_token_left 3599\<rparr>)
         = (Inr ''token-a'', holding_a (one_token_left 0)\<lparr>world := one_token_left 3599\<rparr>)
     \<and> grant_calls (calls (snd (getAccessToken script_env
           (holding_a (one_token_left 0)\<lparr>world := one_token_left 3600\<rparr>))))
         = grant_calls (calls (holding_a (one_token_left 0))) + 1"
    by blast
  then show ?thesis
    by (simp add: first_call third_call c0 w)
qed

section \<open>Token provider: a failed grant\<close>

text \<open>
  Claim C10. When a grant is due (no token is held, or the held one is expired) and the
  grant fails with \<open>e\<close>, \<^verbatim>\<open>getAccessToken\<close> fails with \<open>e\<close> and \<^verbatim>\<open>tokenSet\<close> is
  what it was before the call.
\<close>

theorem getAccessToken_grant_failure:
  assumes "tokenSet s = None \<or> (\<exists>ts. tokenSet s = Some ts \<and> expired (now env (world s)) ts)"
    and "fst (grant env (world s)) = Inl e"
  shows "fst (getAccessToken env s) = Inl e
       \<and> tokenSet (snd (getAccessToken env s)) = tokenSet s"
proof -
  from assms(2) obtain s1 where g: "do_grant env s = (Inl e, s1)"
    using do_grant_fst [of env s] by (cases "do_grant env s") simp
  then have "tokenSet s1 = tokenSet s"
    using do_grant_tokenSet [of env s] by simp
  with assms(1) g show ?thesis
    by (auto simp: getAccessToken_def)
qed

text \<open>An expired token is held and the token endpoint rejects the client.\<close>

theorem getAccessToken_grant_failure_witness:
  "fst (getAccessToken script_env
          \<lparr>tokenSet = Some token_a,
           world = \<lparr>clock = 4000, grants = [Inl (OtherError ''invalid_client'')],
                    replies = []\<rparr>,
           calls = []\<rparr>) = Inl (OtherError ''invalid_client'')
   \<and> tokenSet (snd (getAccessToken script_env
          \<lparr>tokenSet = Some token_a,
           world = \<lparr>clock = 4000, grants = [Inl (OtherError ''invalid_client'')],
                    replies = []\<rparr>,
           calls = []\<rparr>)) = Some token_a"
proof -
  let ?s = "\<lparr>tokenSet = Some token_a,
             world = \<lparr>clock = 4000, grants = [Inl (OtherError ''invalid_client'')],
                      replies = []\<rparr>,
             calls = []\<rparr>"
  have h1: "tokenSet ?s = None
            \<or> (\<exists>ts. tokenSet ?s = Some ts \<and> expired (now script_env (world ?s)) ts)"
    by (simp add: expired_def script_env_def token_a_def)
  have h2: "fst (grant script_env (world ?s)) = Inl (OtherError ''invalid_client'')"
    by (simp add: script_env_def)
  from getAccessToken_grant_failure [OF h1 h2] show ?thesis by simp
qed

section \<open>Request translator: the shape of the resource\<close>

text \<open>
  Claim C5. \<^verbatim>\<open>umbracoMemberModel\<close> returns a resource for every input (it has no
  failing branch): its group list is the regular group, followed by the VIP group exactly
  when \<open>isVip\<close> is truthy, so for a boolean \<open>isVip\<close> exactly when it is true; the
  regular group is always in it; the approval flag is set; and the name is wrapped in one
  variant whose culture and segment are null.
\<close>

theorem umbracoMemberModel_shape:
  "u_groups (umbracoMemberModel env w memberId name email isVip) =
     (if truthy isVip
      then [UMBRACO_MEMBER_GROUP_REGULAR_ID env, UMBRACO_MEMBER_GROUP_VIP_ID env]
      else [UMBRACO_MEMBER_GROUP_REGULAR_ID env])
   \<and> u_groups (umbracoMemberModel env w memberId name email (JBool b)) =
     (if b
      then [UMBRACO_MEMBER_GROUP_REGULAR_ID env, UMBRACO_MEMBER_GROUP_VIP_ID env]
      else [UMBRACO_MEMBER_GROUP_REGULAR_ID env])
   \<and> UMBRACO_MEMBER_GROUP_REGULAR_ID env
        \<in> set (u_groups (umbracoMemberModel env w memberId name email isVip))
   \<and> u_isApproved (umbracoMemberModel env w memberId name email isVip)
   \<and> u_variants (umbracoMemberModel env w memberId name email isVip) =
        [\<lparr>vr_culture = JNull, vr_segment = JNull, vr_name = name\<rparr>]"
  by (simp add: umbracoMemberModel_def)

section \<open>Member directory client: the calls an operation adds\<close>

lemma getAccessToken_calls:
  "\<exists>cs. calls (snd (getAccessToken env s)) = calls s @ cs \<and> write_calls cs = []"
proof (cases "tokenSet s = None \<or> (\<exists>ts. tokenSet s = Some ts \<and> expired (now env (world s)) ts)")
  case True
  from getAccessToken_due_calls [OF True] show ?thesis
    by (simp add: write_calls_def)
next
  case False
  then have "snd (getAccessToken env s) = s"
    by (auto simp: getAccessToken_def split: option.splits)
  then show ?thesis by (simp add: write_calls_def)
qed

lemma getMember_calls:
  "\<exists>cs. calls (snd (getMember env memberId s)) = calls s @ cs \<and> write_calls cs = []"
proof -
  obtain r s1 where t: "getAccessToken env s = (r, s1)" by (cases "getAccessToken env s")
  with getAccessToken_calls [of env s] obtain cs
    where cs: "calls s1 = calls s @ cs" "write_calls cs = []" by auto
  show ?thesis
  proof (cases r)
    case (Inl e)
    with t cs show ?thesis by (simp add: getMember_def)
  next
    case (Inr tok)
    let ?rq = "search_request env tok memberId"
    obtain r2 s2 where f: "do_fetch env ?rq s1 = (r2, s2)" by (cases "do_fetch env ?rq s1")
    with do_fetch_calls [of env ?rq s1] have "calls s2 = calls s1 @ [FetchCall ?rq]" by simp
    with cs have "calls s2 = calls s @ (cs @ [FetchCall ?rq])"
      and "write_calls (cs @ [FetchCall ?rq]) = []"
      by (simp_all add: write_calls_def search_request_def)
    moreover from t Inr f have "snd (getMember env memberId s) = s2"
      by (simp add: getMember_def split: sum.splits)
    ultimately show ?thesis by blast
  qed
qed

lemma send_write_calls:
  "\<exists>cs. calls (snd (send_write env mk s)) = calls s @ cs
     \<and> (write_calls cs = [] \<or> (\<exists>tok. write_calls cs = [FetchCall (mk tok)]))"
proof -
  obtain r s1 where t: "getAccessToken env s = (r, s1)" by (cases "getAccessToken env s")
  with getAccessToken_calls [of env s] obtain cs
    where cs: "calls s1 = calls s @ cs" "write_calls cs = []" by auto
  show ?thesis
  proof (cases r)
    case (Inl e)
    with t cs show ?thesis by (simp add: send_write_def)
  next
    case (Inr tok)
    let ?rq = "mk tok"
    obtain r2 s2 where f: "do_fetch env ?rq s1 = (r2, s2)" by (cases "do_fetch env ?rq s1")
    with do_fetch_calls [of env ?rq s1] have "calls s2 = calls s1 @ [FetchCall ?rq]" by simp
    with cs have "calls s2 = calls s @ (cs @ [FetchCall ?rq])"
      and "write_calls (cs @ [FetchCall ?rq]) = [] \<or> write_calls (cs @ [FetchCall ?rq]) = [FetchCall ?rq]"
      by (simp_all add: write_calls_def)
    moreover from t Inr f have "snd (send_write env mk s) = s2"
      by (simp add: send_write_def split: sum.splits)
    ultimately show ?thesis by blast
  qed
qed

section \<open>Member directory client: what the lookup makes of the search response\<close>

lemma getMember_replied:
  assumes "getAccessToken env s = (Inr tok, s1)"
    and "do_fetch env (search_request env tok memberId) s1 = (Inr r, s2)"
  shows "getMember env memberId s = (getMember_response r, s2)"
  using assms by (simp add: getMember_def)

lemma getMember_response_rejected:
  "getMember_response r = Rejected err \<longleftrightarrow>
     (\<not> ok r \<and> err = \<lparr>code = rs_status r, description = rs_statusText r\<rparr>)"
  by (auto simp: getMember_response_def bodyUsed_def split: sum.splits)

lemma getMember_rejected_replied:
  assumes "fst (getMember env memberId s) = Rejected err"
  shows "\<exists>tok s1 r s2. getAccessToken env s = (Inr tok, s1)
          \<and> do_fetch env (search_request env tok memberId) s1 = (Inr r, s2)
          \<and> getMember_response r = Rejected err"
  using assms by (auto simp: getMember_def split: prod.splits sum.splits)

text \<open>
  Claim C4. When the token is obtained and the search is answered with a status in
  200-299 and a body whose \<^verbatim>\<open>total\<close> is 0, \<^verbatim>\<open>getMember\<close> resolves with
  \<^verbatim>\<open>null\<close>. When it is answered with any other status, \<^verbatim>\<open>getMember\<close> rejects with
  that status and its status text. And \<^verbatim>\<open>getMember\<close> rejects in no other case: a
  rejection means the search was answered with a status outside 200-299, and carries that
  status and status text.
\<close>

theorem getMember_null_or_rejected:
  "(\<forall>tok s1 r s2 result.
      getAccessToken env s = (Inr tok, s1)
      \<and> do_fetch env (search_request env tok memberId) s1 = (Inr r, s2)
      \<and> ok r \<and> rs_json r = Some result \<and> get_prop result ''total'' = Inr (JNum 0)
      \<longrightarrow> getMember env memberId s = (Resolved None, s2))
   \<and> (\<forall>tok s1 r s2.
      getAccessToken env s = (Inr tok, s1)
      \<and> do_fetch env (search_request env tok memberId) s1 = (Inr r, s2)
      \<and> \<not> ok r
      \<longrightarrow> getMember env memberId s =
            (Rejected \<lparr>code = rs_status r, description = rs_statusText r\<rparr>, s2))
   \<and> (\<forall>err. fst (getMember env memberId s) = Rejected err \<longrightarrow>
        (\<exists>tok s1 r s2.
            getAccessToken env s = (Inr tok, s1)
          \<and> do_fetch env (search_request env tok memberId) s1 = (Inr r, s2)
          \<and> \<not> ok r
          \<and> err = \<lparr>code = rs_status r, description = rs_statusText r\<rparr>))"
proof (intro conjI allI impI)
  fix tok s1 r s2 result
  assume a: "getAccessToken env s = (Inr tok, s1)
      \<and> do_fetch env (search_request env tok memberId) s1 = (Inr r, s2)
      \<and> ok r \<and> rs_json r = Some result \<and> get_prop result ''total'' = Inr (JNum 0)"
  then have "getMember_response r = Resolved None"
    by (simp add: getMember_response_def json_def)
  with a show "getMember env memberId s = (Resolved None, s2)"
    by (simp add: getMember_replied)
next
  fix tok s1 r s2
  assume a: "getAccessToken env s = (Inr tok, s1)
      \<and> do_fetch env (search_request env tok memberId) s1 = (Inr r, s2) \<and> \<not> ok r"
  then have "getMember_response r = Rejected \<lparr>code = rs_status r, description = rs_statusText r\<rparr>"
    by (simp add: getMember_response_rejected)
  with a show "getMember env memberId s =
            (Rejected \<lparr>code = rs_status r, description = rs_statusText r\<rparr>, s2)"
    by (simp add: getMember_replied)
next
  fix err assume "fst (getMember env memberId s) = Rejected err"
  from getMember_rejected_replied [OF this]
  show "\<exists>tok s1 r s2.
            getAccessToken env s = (Inr tok, s1)
          \<and> do_fetch env (search_request env tok memberId) s1 = (Inr r, s2)
          \<and> \<not> ok r
          \<and> err = \<lparr>code = rs_status r, description = rs_statusText r\<rparr>"
    by (simp add: getMember_response_rejected)
qed

lemma granted: "getAccessToken script_env (start (w\<lparr>grants := [Inr token_a]\<rparr>))
    = (Inr ''token-a'', granted_a w)"
  by (simp add: run_defs granted_a_def)

text \<open>A search answered with no result, and a search answered with status 500.\<close>

theorem getMember_null_or_rejected_witness:
  "fst (getMember script_env (JStr ''bob'') (start nobody)) = Resolved None
   \<and> fst (getMember script_env (JStr ''bob'') (start search_fails))
       = Rejected \<lparr>code = 500, description = ''Internal Server Error''\<rparr>"
proof -
  let ?rq = "search_request script_env ''token-a'' (JStr ''bob'')"
  have t1: "getAccessToken script_env (start nobody) = (Inr ''token-a'', granted_a nobody)"
    using granted [of nobody] by (simp add: nobody_def)
  have t2: "getAccessToken script_env (start search_fails)
      = (Inr ''token-a'', granted_a search_fails)"
    using granted [of search_fails] by (simp add: search_fails_def)
  have f1: "do_fetch script_env ?rq (granted_a nobody)
      = (Inr found_none, snd (do_fetch script_env ?rq (granted_a nobody)))"
    by (simp add: do_fetch_def script_env_def granted_a_def nobody_def)
  have f2: "do_fetch script_env ?rq (granted_a search_fails)
      = (Inr server_error, snd (do_fetch script_env ?rq (granted_a search_fails)))"
    by (simp add: do_fetch_def script_env_def granted_a_def search_fails_def)
  have r1: "ok found_none \<and> rs_json found_none
      = Some (JObj [(''total'', JNum 0), (''items'', JArr [])])
    \<and> get_prop (JObj [(''total'', JNum 0), (''items'', JArr [])]) ''total'' = Inr (JNum 0)"
    by (simp add: ok_def found_none_def)
  have r2: "\<not> ok server_error" by (simp add: ok_def server_error_def)
  from getMember_null_or_rejected [of script_env "start nobody" "JStr ''bob''"] t1 f1 r1
  have "getMember script_env (JStr ''bob'') (start nobody)
      = (Resolved None, snd (do_fetch script_env ?rq (granted_a nobody)))"
    by blast
  moreover
  from getMember_null_or_rejected [of script_env "start search_fails" "JStr ''bob''"] t2 f2 r2
  have "getMember script_env (JStr ''bob'') (start search_fails)
      = (Rejected \<lparr>code = rs_status server_error, description = rs_statusText server_error\<rparr>,
         snd (do_fetch script_env ?rq (granted_a search_fails)))"
    by blast
  ultimately show ?thesis by (simp add: server_error_def)
qed

section \<open>Member directory client: a search result without items or variants\<close>

lemma read_member_no_items:
  assumes "get_prop result ''items'' = Inr (JArr [])"
  shows "read_member result = Inl TypeError"
  using assms by (simp add: read_member_def bind_exn_def)

lemma get_prop_defined:
  assumes "get_prop v k = Inr x"
  shows "\<exists>y. get_prop v k' = Inr y"
  using assms by (cases v) (auto split: option.splits)

lemma read_member_no_variants:
  assumes "get_prop result ''items'' = Inr (JArr (item # rest))"
    and "get_prop item ''variants'' = Inr (JArr [])"
  shows "read_member result = Inl TypeError"
proof -
  from get_prop_defined [OF assms(2)] obtain a b c
    where "get_prop item ''id'' = Inr a" "get_prop item ''email'' = Inr b"
      "get_prop item ''username'' = Inr c" by blast
  with assms show ?thesis by (simp add: read_member_def bind_exn_def)
qed

text \<open>
  Claim C9. When the search is answered with a status in 200-299 and a body whose
  \<^verbatim>\<open>total\<close> is a number greater than 0, but whose \<^verbatim>\<open>items\<close> is the empty array, or
  whose first item has the empty array as \<^verbatim>\<open>variants\<close>, \<^verbatim>\<open>getMember\<close> neither
  resolves nor rejects: reading a property of \<^verbatim>\<open>items[0]\<close> (of \<^verbatim>\<open>variants[0]\<close>), which
  is \<^verbatim>\<open>undefined\<close>, throws a TypeError inside the promise executor.
\<close>

theorem getMember_empty_items_uncaught:
  assumes "getAccessToken env s = (Inr tok, s1)"
    and "do_fetch env (search_request env tok memberId) s1 = (Inr r, s2)"
    and "ok r" and "rs_json r = Some result"
    and "get_prop result ''total'' = Inr (JNum n)" and "0 < n"
    and "get_prop result ''items'' = Inr (JArr [])
         \<or> (\<exists>item rest. get_prop result ''items'' = Inr (JArr (item # rest))
                \<and> get_prop item ''variants'' = Inr (JArr []))"
  shows "getMember env memberId s = (Uncaught TypeError, s2)"
proof -
  from assms(7) have "read_member result = Inl TypeError"
    using read_member_no_items read_member_no_variants by blast
  with assms(3-6) have "getMember_response r = Uncaught TypeError"
    by (simp add: getMember_response_def json_def)
  with assms(1,2) show ?thesis by (simp add: getMember_replied)
qed

lemma answers_granted:
  "getAccessToken script_env (start (answers r)) = (Inr ''token-a'', granted_a (answers r))"
  using granted [of "answers r"] by (simp add: answers_def)

lemma answers_fetched:
  "do_fetch script_env rq (granted_a (answers r))
     = (Inr r, snd (do_fetch script_env rq (granted_a (answers r))))"
  by (simp add: do_fetch_def script_env_def granted_a_def answers_def)

text \<open>A search answered with total 1 and no item, and one whose item has no variant.\<close>

theorem getMember_empty_items_uncaught_witness:
  "fst (getMember script_env (JStr ''alice'') (start (answers no_items))) = Uncaught TypeError
   \<and> fst (getMember script_env (JStr ''alice'') (start (answers no_variants)))
       = Uncaught TypeError"
proof -
  let ?r1 = "JObj [(''total'', JNum 1), (''items'', JArr [])]"
  let ?item = "JObj [(''id'', JStr ''7d1e''), (''email'', JStr ''a@x.com''),
           (''username'', JStr ''alice''), (''variants'', JArr [])]"
  let ?r2 = "JObj [(''total'', JNum 1), (''items'', JArr [?item])]"
  have a1: "ok no_items" "rs_json no_items = Some ?r1"
    "get_prop ?r1 ''total'' = Inr (JNum 1)" "(0::int) < 1"
    by (simp_all add: ok_def no_items_def)
  have b1: "get_prop ?r1 ''items'' = Inr (JArr [])
         \<or> (\<exists>item rest. get_prop ?r1 ''items'' = Inr (JArr (item # rest))
                \<and> get_prop item ''variants'' = Inr (JArr []))"
    by simp
  have a2: "ok no_variants" "rs_json no_variants = Some ?r2"
    "get_prop ?r2 ''total'' = Inr (JNum 1)"
    by (simp_all add: ok_def no_variants_def)
  have b2: "get_prop ?r2 ''items'' = Inr (JArr [])
         \<or> (\<exists>item rest. get_prop ?r2 ''items'' = Inr (JArr (item # rest))
                \<and> get_prop item ''variants'' = Inr (JArr []))"
    by simp
  from getMember_empty_items_uncaught [OF answers_granted answers_fetched a1 b1]
    getMember_empty_items_uncaught [OF answers_granted answers_fetched a2 a1(4) b2]
  show ?thesis by simp
qed

section \<open>Member directory client: conflict and absence\<close>

text \<open>
  Claim C2. When the lookup \<^verbatim>\<open>createMember\<close> starts with resolves with a member,
  \<^verbatim>\<open>createMember\<close> rejects with code 409 in the state the lookup left, and the calls
  it has added hold no write call (no POST, PUT or DELETE). The state \<open>s\<close> is any state
  of the process, so also the one a successful \<^verbatim>\<open>createMember\<close> of the same member id
  has just left.
\<close>

theorem createMember_conflict:
  assumes "getMember env memberId s = (Resolved (Some m), s1)"
  shows "createMember env memberId name email isVip s =
           (Rejected \<lparr>code = 409, description = ''Member already exists''\<rparr>, s1)
       \<and> write_calls (new_calls s (snd (createMember env memberId name email isVip s))) = []"
proof -
  from assms have c: "createMember env memberId name email isVip s =
           (Rejected \<lparr>code = 409, description = ''Member already exists''\<rparr>, s1)"
    by (simp add: createMember_def)
  from getMember_calls [of env memberId s] assms obtain cs
    where "calls s1 = calls s @ cs" "write_calls cs = []" by auto
  with c show ?thesis by (simp add: new_calls_append)
qed

text \<open>A create that succeeds, then a second create of the same member id: the search
  now finds the member.\<close>

lemma first_create:
  "createMember script_env (JStr ''alice'') (JStr ''Alice'') (JStr ''a@x.com'')
            (JBool True) (start create_twice) = (Resolved True, after_create)"
  by (simp add: after_create_def run_defs create_twice_def)

lemma lookup_after_create:
  "getMember script_env (JStr ''alice'') after_create =
     (Resolved (Some alice), snd (getMember script_env (JStr ''alice'') after_create))"
  by (simp add: after_create_def run_defs create_twice_def alice_def)

theorem createMember_conflict_witness:
  "createMember script_env (JStr ''alice'') (JStr ''Alice'') (JStr ''a@x.com'')
            (JBool True) (start create_twice) = (Resolved True, after_create)
   \<and> fst (createMember script_env (JStr ''alice'') (JStr ''Alice'') (JStr ''a@x.com'')
            (JBool True) after_create)
       = Rejected \<lparr>code = 409, description = ''Member already exists''\<rparr>
   \<and> write_calls (new_calls after_create
         (snd (createMember script_env (JStr ''alice'') (JStr ''Alice'') (JStr ''a@x.com'')
            (JBool True) after_create))) = []"
proof -
  note c = createMember_conflict [OF lookup_after_create,
      of "JStr ''Alice''" "JStr ''a@x.com''" "JBool True"]
  from c have "fst (createMember script_env (JStr ''alice'') (JStr ''Alice'') (JStr ''a@x.com'')
            (JBool True) after_create)
       = Rejected \<lparr>code = 409, description = ''Member already exists''\<rparr>"
    by simp
  with c first_create show ?thesis by blast
qed

text \<open>
  Claim C3. When the lookup resolves with \<^verbatim>\<open>null\<close>, \<^verbatim>\<open>updateMember\<close> and
  \<^verbatim>\<open>deleteMember\<close> reject with code 404 in the state the lookup left, and the calls
  they have added hold no write call.
\<close>

theorem update_delete_not_found:
  assumes "getMember env memberId s = (Resolved None, s1)"
  shows "updateMember env memberId name email isVip s =
           (Rejected \<lparr>code = 404, description = ''No such member''\<rparr>, s1)
       \<and> deleteMember env memberId s =
           (Rejected \<lparr>code = 404, description = ''No such member''\<rparr>, s1)
       \<and> write_calls (new_calls s (snd (updateMember env memberId name email isVip s))) = []
       \<and> write_calls (new_calls s (snd (deleteMember env memberId s))) = []"
proof -
  from assms have u: "updateMember env memberId name email isVip s =
           (Rejected \<lparr>code = 404, description = ''No such member''\<rparr>, s1)"
    and d: "deleteMember env memberId s =
           (Rejected \<lparr>code = 404, description = ''No such member''\<rparr>, s1)"
    by (simp_all add: updateMember_def deleteMember_def)
  from getMember_calls [of env memberId s] assms obtain cs
    where "calls s1 = calls s @ cs" "write_calls cs = []" by auto
  with u d show ?thesis by (simp add: new_calls_append)
qed

text \<open>Update and delete of a member id the search does not find.\<close>

theorem update_delete_not_found_witness:
  "fst (updateMember script_env (JStr ''bob'') (JStr ''Bob'') (JStr ''b@x.com'') (JBool False)
          (start nobody)) = Rejected \<lparr>code = 404, description = ''No such member''\<rparr>
   \<and> fst (deleteMember script_env (JStr ''bob'') (start nobody))
       = Rejected \<lparr>code = 404, description = ''No such member''\<rparr>
   \<and> write_calls (new_calls (start nobody)
        (snd (updateMember script_env (JStr ''bob'') (JStr ''Bob'') (JStr ''b@x.com'')
           (JBool False) (start nobody)))) = []
   \<and> write_calls (new_calls (start nobody)
        (snd (deleteMember script_env (JStr ''bob'') (start nobody)))) = []"
proof -
  have h: "getMember script_env (JStr ''bob'') (start nobody) =
      (Resolved None, snd (getMember script_env (JStr ''bob'') (start nobody)))"
    by (simp add: run_defs nobody_def)
  note c = update_delete_not_found [OF h, of "JStr ''Bob''" "JStr ''b@x.com''" "JBool False"]
  from c have "fst (updateMember script_env (JStr ''bob'') (JStr ''Bob'') (JStr ''b@x.com'')
          (JBool False) (start nobody)) = Rejected \<lparr>code = 404, description = ''No such member''\<rparr>"
    and "fst (deleteMember script_env (JStr ''bob'') (start nobody))
       = Rejected \<lparr>code = 404, description = ''No such member''\<rparr>"
    by simp_all
  with c show ?thesis by blast
qed

section \<open>Member directory client: the id a write call is addressed by\<close>

lemma getMember_resolved_from_response:
  assumes "getMember env memberId s = (Resolved (Some m), s1)"
  shows "\<exists>tok s0 r result items item.
           getAccessToken env s = (Inr tok, s0)
         \<and> do_fetch env (search_request env tok memberId) s0 = (Inr r, s1)
         \<and> rs_json r = Some result
         \<and> get_prop result ''items'' = Inr items
         \<and> index0 items = Inr item
         \<and> get_prop item ''id'' = Inr (m_id m)"
proof -
  from assms obtain tok s0 where t: "getAccessToken env s = (Inr tok, s0)"
    by (auto simp: getMember_def split: prod.splits sum.splits)
  with assms obtain r where f: "do_fetch env (search_request env tok memberId) s0 = (Inr r, s1)"
    and g: "getMember_response r = Resolved (Some m)"
    by (auto simp: getMember_def split: prod.splits sum.splits)
  from g obtain result where j: "rs_json r = Some result" and rm: "read_member result = Inr m"
    by (auto simp: getMember_response_def json_def split: if_splits sum.splits option.splits)
  from rm obtain items item where "get_prop result ''items'' = Inr items"
    "index0 items = Inr item" "get_prop item ''id'' = Inr (m_id m)"
    by (auto simp: read_member_def bind_exn_def split: sum.splits)
  with t f j show ?thesis by blast
qed

lemma send_write_request:
  "\<forall>c \<in> set (write_calls (new_calls s (snd (send_write env mk s)))).
      \<exists>tok. c = FetchCall (mk tok)"
proof -
  from send_write_calls [of env mk s] obtain cs
    where "calls (snd (send_write env mk s)) = calls s @ cs"
      and "write_calls cs = [] \<or> (\<exists>tok. write_calls cs = [FetchCall (mk tok)])" by blast
  then show ?thesis by (auto simp: new_calls_append)
qed

lemma send_write_once: "length (write_calls (new_calls s (snd (send_write env mk s)))) \<le> 1"
proof -
  from send_write_calls [of env mk s] obtain cs
    where "calls (snd (send_write env mk s)) = calls s @ cs"
      and "write_calls cs = [] \<or> (\<exists>tok. write_calls cs = [FetchCall (mk tok)])" by blast
  then show ?thesis by (auto simp: new_calls_append)
qed

lemma new_calls_trans:
  assumes "calls s1 = calls s @ cs" and "calls s2 = calls s1 @ ds"
  shows "new_calls s s2 = cs @ new_calls s1 s2"
  using assms by (simp add: new_calls_def)

lemma send_write_extends: "\<exists>ds. calls (snd (send_write env mk s)) = calls s @ ds"
  using send_write_calls [of env mk s] by blast

lemma write_after_lookup:
  assumes "getMember env memberId s = (r, s1)"
  shows "write_calls (new_calls s (snd (send_write env mk s1)))
          = write_calls (new_calls s1 (snd (send_write env mk s1)))"
proof -
  from getMember_calls [of env memberId s] assms obtain cs
    where cs: "calls s1 = calls s @ cs" "write_calls cs = []" by auto
  from send_write_extends [of env mk s1] obtain ds
    where "calls (snd (send_write env mk s1)) = calls s1 @ ds" by blast
  from new_calls_trans [OF cs(1) this] cs(2) show ?thesis
    by (simp add: write_calls_append)
qed

lemma updateMember_found:
  assumes "getMember env memberId s = (Resolved (Some m), s1)"
  shows "updateMember env memberId name email isVip s =
           send_write env
             (update_request env (m_id m)
                (umbracoMemberModel env (world s1) memberId name email isVip)) s1"
  using assms by (simp add: updateMember_def)

lemma deleteMember_found:
  assumes "getMember env memberId s = (Resolved (Some m), s1)"
  shows "deleteMember env memberId s = send_write env (delete_request env (m_id m)) s1"
  using assms by (simp add: deleteMember_def)

lemma updateMember_not_found_calls:
  assumes "\<not> (\<exists>m. fst (getMember env memberId s) = Resolved (Some m))"
  shows "write_calls (new_calls s (snd (updateMember env memberId name email isVip s))) = []"
proof -
  obtain r s1 where g: "getMember env memberId s = (r, s1)" by (cases "getMember env memberId s")
  with assms have "snd (updateMember env memberId name email isVip s) = s1"
    by (auto simp: updateMember_def split: outcome.splits option.splits)
  with getMember_calls [of env memberId s] g show ?thesis
    by (auto simp: new_calls_append)
qed

lemma deleteMember_not_found_calls:
  assumes "\<not> (\<exists>m. fst (getMember env memberId s) = Resolved (Some m))"
  shows "write_calls (new_calls s (snd (deleteMember env memberId s))) = []"
proof -
  obtain r s1 where g: "getMember env memberId s = (r, s1)" by (cases "getMember env memberId s")
  with assms have "snd (deleteMember env memberId s) = s1"
    by (auto simp: deleteMember_def split: outcome.splits option.splits)
  with getMember_calls [of env memberId s] g show ?thesis
    by (auto simp: new_calls_append)
qed

text \<open>
  Claim C6. The write calls \<^verbatim>\<open>updateMember\<close> and \<^verbatim>\<open>deleteMember\<close> add are at most
  one each. When the lookup by \<open>memberId\<close> that starts the operation resolves with a
  member \<open>m\<close>, that call is a PUT (a DELETE) to the member URL of \<open>m_id m\<close>, and
  \<open>m_id m\<close> is the \<^verbatim>\<open>id\<close> of \<^verbatim>\<open>items[0]\<close> in the body of the search response; when
  the lookup ends any other way, no write call is made.
\<close>

theorem write_addressed_by_lookup_id:
  "(\<forall>m s1. getMember env memberId s = (Resolved (Some m), s1) \<longrightarrow>
      (\<forall>c \<in> set (write_calls (new_calls s (snd (updateMember env memberId name email isVip s)))).
         \<exists>rq. c = FetchCall rq \<and> rq_method rq = PUT \<and> rq_url rq = member_url env (m_id m))
    \<and> (\<forall>c \<in> set (write_calls (new_calls s (snd (deleteMember env memberId s)))).
         \<exists>rq. c = FetchCall rq \<and> rq_method rq = DELETE \<and> rq_url rq = member_url env (m_id m))
    \<and> (\<exists>tok s0 r result items item.
           getAccessToken env s = (Inr tok, s0)
         \<and> do_fetch env (search_request env tok memberId) s0 = (Inr r, s1)
         \<and> rs_json r = Some result
         \<and> get_prop result ''items'' = Inr items
         \<and> index0 items = Inr item
         \<and> get_prop item ''id'' = Inr (m_id m)))
   \<and> (\<not> (\<exists>m. fst (getMember env memberId s) = Resolved (Some m)) \<longrightarrow>
        write_calls (new_calls s (snd (updateMember env memberId name email isVip s))) = []
      \<and> write_calls (new_calls s (snd (deleteMember env memberId s))) = [])
   \<and> length (write_calls (new_calls s (snd (updateMember env memberId name email isVip s)))) \<le> 1
   \<and> length (write_calls (new_calls s (snd (deleteMember env memberId s)))) \<le> 1"
proof -
  have found: "(\<forall>c \<in> set (write_calls (new_calls s (snd (updateMember env memberId name email isVip s)))).
         \<exists>rq. c = FetchCall rq \<and> rq_method rq = PUT \<and> rq_url rq = member_url env (m_id m))
    \<and> (\<forall>c \<in> set (write_calls (new_calls s (snd (deleteMember env memberId s)))).
         \<exists>rq. c = FetchCall rq \<and> rq_method rq = DELETE \<and> rq_url rq = member_url env (m_id m))
    \<and> length (write_calls (new_calls s (snd (updateMember env memberId name email isVip s)))) \<le> 1
    \<and> length (write_calls (new_calls s (snd (deleteMember env memberId s)))) \<le> 1"
    if g: "getMember env memberId s = (Resolved (Some m), s1)" for m s1
  proof -
    let ?mu = "update_request env (m_id m)
                (umbracoMemberModel env (world s1) memberId name email isVip)"
    let ?md = "delete_request env (m_id m)"
    have u: "write_calls (new_calls s (snd (updateMember env memberId name email isVip s)))
        = write_calls (new_calls s1 (snd (send_write env ?mu s1)))"
      by (simp add: updateMember_found [OF g] write_after_lookup [OF g])
    have d: "write_calls (new_calls s (snd (deleteMember env memberId s)))
        = write_calls (new_calls s1 (snd (send_write env ?md s1)))"
      by (simp add: deleteMember_found [OF g] write_after_lookup [OF g])
    from send_write_request [of s1 env ?mu] send_write_request [of s1 env ?md]
      send_write_once [of s1 env ?mu] send_write_once [of s1 env ?md]
    show ?thesis
      unfolding u d by (auto simp: update_request_def delete_request_def)
  qed
  have once: "length (write_calls (new_calls s (snd (updateMember env memberId name email isVip s)))) \<le> 1
    \<and> length (write_calls (new_calls s (snd (deleteMember env memberId s)))) \<le> 1"
  proof (cases "\<exists>m. fst (getMember env memberId s) = Resolved (Some m)")
    case True
    then obtain m where "getMember env memberId s = (Resolved (Some m), snd (getMember env memberId s))"
      by (cases "getMember env memberId s") auto
    from found [OF this] show ?thesis by blast
  next
    case False
    from updateMember_not_found_calls [OF False] deleteMember_not_found_calls [OF False]
    show ?thesis by simp
  qed
  from found once getMember_resolved_from_response [of env memberId s]
    updateMember_not_found_calls [of env memberId s name email isVip]
    deleteMember_not_found_calls [of env memberId s]
  show ?thesis by (intro conjI allI impI) blast+
qed

text \<open>Update and delete of a member the search finds with id 7d1e.\<close>

theorem write_addressed_by_lookup_id_witness:
  "getMember script_env (JStr ''alice'') (start edit_alice) =
      (Resolved (Some alice), snd (getMember script_env (JStr ''alice'') (start edit_alice)))
   \<and> (\<exists>rq. write_calls (new_calls (start edit_alice)
              (snd (updateMember script_env (JStr ''alice'') (JStr ''Alice B'') (JStr ''a@x.com'')
                 (JBool False) (start edit_alice)))) = [FetchCall rq]
          \<and> rq_method rq = PUT
          \<and> rq_url rq = ''https://cms.example/umbraco/management/api/v1/member/7d1e'')
   \<and> (\<exists>rq. write_calls (new_calls (start edit_alice)
              (snd (deleteMember script_env (JStr ''alice'') (start edit_alice)))) = [FetchCall rq]
          \<and> rq_method rq = DELETE
          \<and> rq_url rq = ''https://cms.example/umbraco/management/api/v1/member/7d1e'')"
proof -
  let ?s = "start edit_alice"
  let ?u = "write_calls (new_calls ?s
              (snd (updateMember script_env (JStr ''alice'') (JStr ''Alice B'') (JStr ''a@x.com'')
                 (JBool False) ?s)))"
  let ?d = "write_calls (new_calls ?s (snd (deleteMember script_env (JStr ''alice'') ?s)))"
  have h: "getMember script_env (JStr ''alice'') ?s =
      (Resolved (Some alice), snd (getMember script_env (JStr ''alice'') ?s))"
    by (simp add: run_defs edit_alice_def updated_def alice_def)
  have u: "length ?u = 1"
    by (simp add: run_defs edit_alice_def updated_def write_calls_def new_calls_def)
  have d: "length ?d = 1"
    by (simp add: run_defs edit_alice_def updated_def write_calls_def new_calls_def)
  have url: "member_url script_env (m_id alice)
      = ''https://cms.example/umbraco/management/api/v1/member/7d1e''"
    by (simp add: member_url_def script_env_def alice_def)
  from u obtain cu where cu: "?u = [cu]" by (cases ?u) auto
  from d obtain cd where cd: "?d = [cd]" by (cases ?d) auto
  note c = write_addressed_by_lookup_id [of script_env "JStr ''alice''" ?s
      "JStr ''Alice B''" "JStr ''a@x.com''" "JBool False"]
  from c h cu have "\<exists>rq. cu = FetchCall rq \<and> rq_method rq = PUT
      \<and> rq_url rq = member_url script_env (m_id alice)"
    by (metis list.set_intros(1))
  moreover from c h cd have "\<exists>rq. cd = FetchCall rq \<and> rq_method rq = DELETE
      \<and> rq_url rq = member_url script_env (m_id alice)"
    by (metis list.set_intros(1))
  ultimately show ?thesis using h cu cd url by auto
qed

section \<open>Write calls answered with an error status and no JSON body\<close>

text \<open>Lines 108, 144 and 176 parse the body of every answer that is not ok.\<close>

lemma write_response_no_json:
  "\<not> ok r \<Longrightarrow> rs_json r = None \<Longrightarrow> write_response r = Uncaught SyntaxError"
  by (simp add: write_response_def json_def)

text \<open>
  Claim C7. The search of \<^verbatim>\<open>getMember\<close> answered with status 500 and no JSON body is
  rejected with the status and the status text. The write calls are not: with the same
  answer to the POST of \<^verbatim>\<open>createMember\<close>, the PUT of \<^verbatim>\<open>updateMember\<close> or the DELETE
  of \<^verbatim>\<open>deleteMember\<close>, \<^verbatim>\<open>response.json()\<close> throws a SyntaxError before the rejection
  is reached, the operation neither resolves nor rejects, and the handler never answers.
\<close>

theorem write_error_without_json_body:
  "fst (getMember script_env (JStr ''alice'') (start search_fails))
     = Rejected \<lparr>code = 500, description = ''Internal Server Error''\<rparr>
   \<and> fst (createMember script_env (JStr ''alice'') (JStr ''Alice'') (JStr ''a@x.com'')
            (JBool False) (start write_fails)) = Uncaught SyntaxError
   \<and> fst (updateMember script_env (JStr ''alice'') (JStr ''Alice'') (JStr ''a@x.com'')
            (JBool False) (start edit_fails)) = Uncaught SyntaxError
   \<and> fst (deleteMember script_env (JStr ''alice'') (start edit_fails)) = Uncaught SyntaxError
   \<and> fst (post_member script_env
            (JObj [(''memberId'', JStr ''alice''), (''name'', JStr ''Alice''),
                   (''email'', JStr ''a@x.com'')])
            (start write_fails)) = NoReply SyntaxError"
  by (simp add: run_defs search_fails_def write_fails_def edit_fails_def post_member_def
      relay_def)

section \<open>HTTP facade: a create request that lacks a required property\<close>

text \<open>
  Claim C8. When \<^verbatim>\<open>email\<close>, \<^verbatim>\<open>name\<close> or \<^verbatim>\<open>memberId\<close> is missing from the body of
  a \<^verbatim>\<open>POST /member\<close> request, the handler answers 400 and leaves the state as it was:
  no grant and no request to the management API is made.
\<close>

theorem post_member_missing_property:
  assumes "get_prop data ''email'' = Inr JUndefined
         \<or> get_prop data ''name'' = Inr JUndefined
         \<or> get_prop data ''memberId'' = Inr JUndefined"
  shows "post_member env data s =
           (Reply 400 ''Malformed request body (missing required member properties)'', s)
       \<and> new_calls s (snd (post_member env data s)) = []"
proof -
  from assms obtain k x where "get_prop data k = Inr x" by blast
  from get_prop_defined [OF this] obtain e n m
    where "get_prop data ''email'' = Inr e" "get_prop data ''name'' = Inr n"
      "get_prop data ''memberId'' = Inr m" by blast
  with assms have "post_member env data s = (malformed, s)"
    by (auto simp: post_member_def)
  then show ?thesis by (simp add: malformed_def new_calls_def)
qed

text \<open>A body without \<^verbatim>\<open>email\<close>.\<close>

theorem post_member_missing_property_witness:
  "post_member script_env (JObj [(''memberId'', JStr ''alice''), (''name'', JStr ''Alice'')])
     (start two_tokens) =
     (Reply 400 ''Malformed request body (missing required member properties)'',
      start two_tokens)
   \<and> calls (snd (post_member script_env
        (JObj [(''memberId'', JStr ''alice''), (''name'', JStr ''Alice'')])
        (start two_tokens))) = []"
proof -
  let ?data = "JObj [(''memberId'', JStr ''alice''), (''name'', JStr ''Alice'')]"
  have h: "get_prop ?data ''email'' = Inr JUndefined
         \<or> get_prop ?data ''name'' = Inr JUndefined
         \<or> get_prop ?data ''memberId'' = Inr JUndefined"
    by simp
  from post_member_missing_property [OF h, of script_env "start two_tokens"]
  show ?thesis by (simp add: start_def)
qed

end
